theory Spec2Isabelle
  imports Complex_Main
begin

section \<open>Cross-section algebra of \<open>beam.py\<close>\<close>

text \<open>
  The module builds beam cross-sections as expression trees over one leaf
  (\<open>_UnitSquare\<close>) and four combinator classes, and answers four queries on them:
  \<open>area\<close>, \<open>bb\<close> (bounding box), \<open>mom\<close> (second moment of area about the axis
  \<open>y = 0\<close>) and \<open>com\<close> (centre of mass).

  Numbers: Python's \<open>float\<close> and \<open>int\<close> values are read as exact reals, so the
  arithmetic below is that of \<open>\<real>\<close> and says nothing about rounding, overflow or
  NaN. The difference between \<open>int\<close> and \<open>float\<close> is kept only where the source
  itself asks for it with \<open>isinstance\<close>: in \<open>scale\<close> and in \<open>__mul__\<close>.
\<close>

subsection \<open>Exceptions\<close>

datatype error = TypeError | ZeroDivisionError | AssertionError

subsection \<open>Argument values of the dynamically checked methods\<close>

text \<open>
  The object handed to \<open>scale\<close>, which a \<open>_ScaledCrossection\<close> then keeps in its
  field \<open>scale\<close>. The annotation is \<open>float | tuple[float, float]\<close>; an \<open>int\<close> is the
  third kind of number a caller can pass for it.
\<close>

datatype pyscale = ScFloat real | ScInt int | ScTuple real real

text \<open>The object on the other side of \<open>*\<close>, which \<open>__mul__\<close> checks with an assertion.\<close>

datatype pyval =
    PyFloat real
  | PyInt int
  | PyBool bool
  | PyStr string
  | PyNone
  | PyTuple "pyval list"

text \<open>\<open>isinstance(v, (float, int))\<close>; \<open>bool\<close> is a subclass of \<open>int\<close>.\<close>

fun isinstance_float_int :: "pyval \<Rightarrow> bool" where
  "isinstance_float_int (PyFloat r) = True"
| "isinstance_float_int (PyInt i) = True"
| "isinstance_float_int (PyBool b) = True"
| "isinstance_float_int (PyStr s) = False"
| "isinstance_float_int PyNone = False"
| "isinstance_float_int (PyTuple vs) = False"

text \<open>The real number a numeric object stands for in a product.\<close>

fun num_val :: "pyval \<Rightarrow> real" where
  "num_val (PyFloat r) = r"
| "num_val (PyInt i) = real_of_int i"
| "num_val (PyBool b) = (if b then 1 else 0)"
| "num_val (PyStr s) = 0"
| "num_val PyNone = 0"
| "num_val (PyTuple vs) = 0"

subsection \<open>The expression tree\<close>

text \<open>
  One constructor per concrete node class, with the fields its \<open>__init__\<close> stores.
  \<open>Rectangle\<close> and the other \<open>_CompositeSection\<close> classes hand every query to their
  \<open>_composite\<close> expression and are the functions building that expression.
\<close>

datatype crossection =
    UnitSquare
  | Shifted crossection "real \<times> real"
  | Scaled crossection pyscale
  | Weighted crossection real
  | Sum crossection crossection

type_synonym box = "(real \<times> real) \<times> (real \<times> real)"

text \<open>
  \<open>self.scale[0]\<close>, \<open>self.scale[1]\<close> and \<open>xscale, yscale = self.scale\<close>: only a tuple can
  be subscripted or unpacked, a bare number raises \<open>TypeError\<close>.
\<close>

fun scale_items :: "pyscale \<Rightarrow> error + (real \<times> real)" where
  "scale_items (ScTuple fx fy) = Inr (fx, fy)"
| "scale_items (ScFloat f) = Inl TypeError"
| "scale_items (ScInt i) = Inl TypeError"

subsection \<open>The four queries\<close>

fun area :: "crossection \<Rightarrow> error + real" where
  "area UnitSquare = Inr 1"
| "area (Shifted c offset) = area c"
| "area (Scaled c s) =
     (case area c of Inl e \<Rightarrow> Inl e | Inr a \<Rightarrow>
       (case scale_items s of Inl e \<Rightarrow> Inl e | Inr (fx, fy) \<Rightarrow>
          Inr (a * fx * fy)))"
| "area (Weighted c w) =
     (case area c of Inl e \<Rightarrow> Inl e | Inr a \<Rightarrow> Inr (a * w))"
| "area (Sum first second) =
     (case area first of Inl e \<Rightarrow> Inl e | Inr a1 \<Rightarrow>
       (case area second of Inl e \<Rightarrow> Inl e | Inr a2 \<Rightarrow>
          Inr (a1 + a2)))"

fun bb :: "crossection \<Rightarrow> error + box" where
  "bb UnitSquare = Inr ((- 0.5, - 0.5), (0.5, 0.5))"
| "bb (Shifted c offset) =
     (case bb c of Inl e \<Rightarrow> Inl e | Inr ((xmin, ymin), (xmax, ymax)) \<Rightarrow>
       (case offset of (xshift, yshift) \<Rightarrow>
          Inr ((xmin + xshift, ymin + yshift), (xmax + xshift, ymax + yshift))))"
| "bb (Scaled c s) =
     (case bb c of Inl e \<Rightarrow> Inl e | Inr ((xmin, ymin), (xmax, ymax)) \<Rightarrow>
       (case scale_items s of Inl e \<Rightarrow> Inl e | Inr (xscale, yscale) \<Rightarrow>
          Inr ((xmin * xscale, ymin * yscale), (xmax * xscale, ymax * yscale))))"
| "bb (Weighted c w) = bb c"
| "bb (Sum first second) =
     (case bb first of Inl e \<Rightarrow> Inl e | Inr ((xmin1, ymin1), (xmax1, ymax1)) \<Rightarrow>
       (case bb second of Inl e \<Rightarrow> Inl e | Inr ((xmin2, ymin2), (xmax2, ymax2)) \<Rightarrow>
          Inr ((min xmin1 xmin2, min ymin1 ymin2), (max xmax1 xmax2, max ymax1 ymax2))))"

fun mom :: "crossection \<Rightarrow> error + real" where
  "mom UnitSquare = Inr (1 / 12)"
| "mom (Shifted c offset) =
     (case mom c of Inl e \<Rightarrow> Inl e | Inr m \<Rightarrow>
       (case area c of Inl e \<Rightarrow> Inl e | Inr a \<Rightarrow>
          Inr (m + a * snd offset * snd offset)))"
| "mom (Scaled c s) =
     (case mom c of Inl e \<Rightarrow> Inl e | Inr m \<Rightarrow>
       (case scale_items s of Inl e \<Rightarrow> Inl e | Inr (fx, fy) \<Rightarrow>
          Inr (m * fx * (fy ^ 3))))"
| "mom (Weighted c w) =
     (case mom c of Inl e \<Rightarrow> Inl e | Inr m \<Rightarrow> Inr (m * w))"
| "mom (Sum first second) =
     (case mom first of Inl e \<Rightarrow> Inl e | Inr m1 \<Rightarrow>
       (case mom second of Inl e \<Rightarrow> Inl e | Inr m2 \<Rightarrow>
          Inr (m1 + m2)))"

text \<open>
  \<open>_ShiftedCrosssection.com\<close> reads the child's \<open>com\<close> once for each coordinate;
  \<open>_SumCrossection.com\<close> reads \<open>first.com\<close>, \<open>first.area\<close>, \<open>second.com\<close>,
  \<open>second.area\<close> in this order and then divides, the \<open>x\<close> quotient first.
\<close>

fun com :: "crossection \<Rightarrow> error + (real \<times> real)" where
  "com UnitSquare = Inr (0, 0)"
| "com (Shifted c offset) =
     (case com c of Inl e \<Rightarrow> Inl e | Inr p \<Rightarrow>
       (case com c of Inl e \<Rightarrow> Inl e | Inr q \<Rightarrow>
          Inr (fst offset + fst p, snd offset + snd q)))"
| "com (Scaled c s) = com c"
| "com (Weighted c w) = com c"
| "com (Sum first second) =
     (case com first of Inl e \<Rightarrow> Inl e | Inr (x1, y1) \<Rightarrow>
       (case area first of Inl e \<Rightarrow> Inl e | Inr m1 \<Rightarrow>
         (case com second of Inl e \<Rightarrow> Inl e | Inr (x2, y2) \<Rightarrow>
           (case area second of Inl e \<Rightarrow> Inl e | Inr m2 \<Rightarrow>
             (if m1 + m2 = 0 then Inl ZeroDivisionError
              else Inr ((x1 * m1 + x2 * m2) / (m1 + m2),
                        (y1 * m1 + y2 * m2) / (m1 + m2)))))))"

subsection \<open>The methods of \<open>_Crossection\<close>\<close>

definition shift :: "crossection \<Rightarrow> real \<times> real \<Rightarrow> crossection" where
  "shift self offset = Shifted self offset"

text \<open>
  \<open>scale\<close>: \<open>isinstance(scale, float)\<close> holds for a \<open>float\<close> only, which is then
  doubled into a pair; an \<open>int\<close> and a tuple are stored as they come.
\<close>

fun scale :: "crossection \<Rightarrow> pyscale \<Rightarrow> crossection" where
  "scale self (ScFloat f) = Scaled self (ScTuple f f)"
| "scale self (ScInt i) = Scaled self (ScInt i)"
| "scale self (ScTuple fx fy) = Scaled self (ScTuple fx fy)"

text \<open>\<open>__mul__\<close>: the assertion is checked before the node is built.\<close>

definition mul :: "crossection \<Rightarrow> pyval \<Rightarrow> error + crossection" where
  "mul self weight =
     (if isinstance_float_int weight then Inr (Weighted self (num_val weight))
      else Inl AssertionError)"

definition rmul :: "crossection \<Rightarrow> pyval \<Rightarrow> error + crossection" where
  "rmul self weight = mul self weight"

text \<open>\<open>__neg__\<close>: \<open>(-1) * self\<close> is answered by \<open>self.__rmul__(-1)\<close>.\<close>

definition neg :: "crossection \<Rightarrow> error + crossection" where
  "neg self = rmul self (PyInt (- 1))"

definition add :: "crossection \<Rightarrow> crossection \<Rightarrow> crossection" where
  "add self other = Sum self other"

definition sub :: "crossection \<Rightarrow> crossection \<Rightarrow> error + crossection" where
  "sub self other =
     (case neg other of Inl e \<Rightarrow> Inl e | Inr n \<Rightarrow> Inr (add self n))"

definition center :: "crossection \<Rightarrow> error + crossection" where
  "center self =
     (case com self of Inl e \<Rightarrow> Inl e | Inr (x, y) \<Rightarrow> Inr (shift self (- x, - y)))"

subsection \<open>Named shapes\<close>

text \<open>\<open>Rectangle(x_side, y_side)._composite\<close>.\<close>

definition Rectangle :: "real \<Rightarrow> real \<Rightarrow> crossection" where
  "Rectangle x_side y_side = scale UnitSquare (ScTuple x_side y_side)"

subsection \<open>Well-formed trees\<close>

text \<open>
  A tree is well formed when every \<open>_ScaledCrossection\<close> in it holds a pair. On such
  trees \<open>area\<close>, \<open>bb\<close> and \<open>mom\<close> always return, so the hypotheses \<open>area A = Inr a\<close>
  and the like of the theorems below hold for every tree built with \<open>shift\<close>, \<open>add\<close>,
  \<open>*\<close> and \<open>scale\<close> on a \<open>float\<close> or a pair.
\<close>

fun well_formed :: "crossection \<Rightarrow> bool" where
  "well_formed UnitSquare = True"
| "well_formed (Shifted c offset) = well_formed c"
| "well_formed (Scaled c s) = (well_formed c \<and> (case s of ScTuple fx fy \<Rightarrow> True | _ \<Rightarrow> False))"
| "well_formed (Weighted c w) = well_formed c"
| "well_formed (Sum first second) = (well_formed first \<and> well_formed second)"

section \<open>Properties\<close>

subsection \<open>Auxiliary facts\<close>

lemma area_returns: "well_formed A \<Longrightarrow> \<exists>a. area A = Inr a"
  by (induction A) (auto split: pyscale.splits)

lemma mom_returns: "well_formed A \<Longrightarrow> \<exists>m. mom A = Inr m"
proof (induction A)
  case UnitSquare
  show ?case by (rule exI [of _ "1 / 12"]) simp
next
  case (Shifted A offset)
  then show ?case using area_returns [of A] by auto
qed (auto split: pyscale.splits)

lemma bb_returns: "well_formed A \<Longrightarrow> \<exists>b. bb A = Inr b"
proof (induction A)
  case UnitSquare
  show ?case by (rule exI [of _ "((- 0.5, - 0.5), (0.5, 0.5))"]) simp
next
  case (Shifted A offset)
  then show ?case by (cases offset) (auto split: prod.splits)
qed (auto split: pyscale.splits prod.splits)

lemma scale_float_is_pair: "scale A (ScFloat s) = scale A (ScTuple s s)"
  by simp

lemma neg_is_weight_minus_one: "neg A = Inr (Weighted A (- 1))"
  by (simp add: neg_def rmul_def mul_def)

lemma sub_self: "sub A A = Inr (Sum A (Weighted A (- 1)))"
  by (simp add: sub_def neg_is_weight_minus_one add_def)

lemma area_sub_self: "area A = Inr a \<Longrightarrow> area (Sum A (Weighted A (- 1))) = Inr 0"
  by simp

lemma com_sub_self:
  assumes "area A = Inr a" and "com A = Inr c"
  shows "com (Sum A (Weighted A (- 1))) = Inl ZeroDivisionError"
  using assms by (cases c) simp

subsection \<open>Shifted\<close>

text \<open>
  C1. For a shape \<open>A\<close> whose moment \<open>m\<close> and area \<open>a\<close> are returned, and every offset
  \<open>(dx, dy)\<close>, the moment of \<open>A.shift((dx, dy))\<close> is \<open>m + a \<sqdot> dy\<^sup>2\<close>; \<open>dx\<close> does not
  occur in it.
\<close>

theorem shifted_mom_parallel_axis:
  assumes "mom A = Inr m" and "area A = Inr a"
  shows "mom (shift A (dx, dy)) = Inr (m + a * dy\<^sup>2)"
  using assms by (simp add: shift_def power2_eq_square)

theorem shifted_mom_parallel_axis_witness:
  "mom (Rectangle 2 1) = Inr (1 / 6) \<and> area (Rectangle 2 1) = Inr 2 \<and>
   mom (shift (Rectangle 2 1) (0, 1)) = Inr (13 / 6) \<and>
   mom (shift (Rectangle 2 1) (5, 1)) = Inr (13 / 6)"
proof -
  have m: "mom (Rectangle 2 1) = Inr (1 / 6)" by (simp add: Rectangle_def)
  have a: "area (Rectangle 2 1) = Inr 2" by (simp add: Rectangle_def)
  from shifted_mom_parallel_axis [OF m a, of 0 1]
    shifted_mom_parallel_axis [OF m a, of 5 1] m a
  show ?thesis by simp
qed

subsection \<open>Scaled\<close>



text \<open>
  C5. \<open>A.scale(s)\<close> with a single number \<open>s\<close> agrees with \<open>A.scale((s, s))\<close> when \<open>s\<close> is a
  \<open>float\<close> (\<open>scale_float_is_pair\<close>). When \<open>s\<close> is an \<open>int\<close> it does not: the node is built
  with the bare number, and its \<open>area\<close>, \<open>bb\<close> and \<open>mom\<close> raise \<open>TypeError\<close>, where the
  pair \<open>(2, 2)\<close> gives area 4, the box \<open>((-1, -1), (1, 1))\<close> and moment \<open>4/3\<close>.
\<close>

theorem scale_int_scalar_fault:
  "scale UnitSquare (ScInt 2) = Scaled UnitSquare (ScInt 2) \<and>
   area (scale UnitSquare (ScInt 2)) = Inl TypeError \<and>
   bb (scale UnitSquare (ScInt 2)) = Inl TypeError \<and>
   mom (scale UnitSquare (ScInt 2)) = Inl TypeError \<and>
   area (scale UnitSquare (ScTuple 2 2)) = Inr 4 \<and>
   bb (scale UnitSquare (ScTuple 2 2)) = Inr ((- 1, - 1), (1, 1)) \<and>
   mom (scale UnitSquare (ScTuple 2 2)) = Inr (4 / 3)"
  by simp

subsection \<open>Weighted\<close>

text \<open>
  C6. For a shape \<open>A\<close> whose area \<open>a\<close> and moment \<open>m\<close> are returned, and every number
  \<open>w\<close> (a \<open>float\<close> or an \<open>int\<close>, of either sign), \<open>A * w\<close> is the Weighted node over
  \<open>A\<close>, with area \<open>a \<sqdot> w\<close> and moment \<open>m \<sqdot> w\<close>, and with the bounding box and the
  centre of mass of \<open>A\<close>.
\<close>

theorem weighted_laws:
  assumes "area A = Inr a" and "mom A = Inr m"
  shows "mul A (PyFloat w) = Inr (Weighted A w) \<and>
         mul A (PyInt i) = Inr (Weighted A (real_of_int i)) \<and>
         area (Weighted A w) = Inr (a * w) \<and>
         mom (Weighted A w) = Inr (m * w) \<and>
         bb (Weighted A w) = bb A \<and>
         com (Weighted A w) = com A"
  using assms by (simp add: mul_def)

theorem weighted_laws_witness:
  "area (Rectangle 2 1) = Inr 2 \<and> mom (Rectangle 2 1) = Inr (1 / 6) \<and>
   mul (Rectangle 2 1) (PyInt (- 1)) = Inr (Weighted (Rectangle 2 1) (- 1)) \<and>
   area (Weighted (Rectangle 2 1) (- 1)) = Inr (- 2) \<and>
   mom (Weighted (Rectangle 2 1) (- 1)) = Inr (- (1 / 6)) \<and>
   bb (Weighted (Rectangle 2 1) (- 1)) = Inr ((- 1, - 0.5), (1, 0.5)) \<and>
   com (Weighted (Rectangle 2 1) (- 1)) = Inr (0, 0)"
proof -
  have a: "area (Rectangle 2 1) = Inr 2" by (simp add: Rectangle_def)
  have m: "mom (Rectangle 2 1) = Inr (1 / 6)" by (simp add: Rectangle_def)
  have b: "bb (Rectangle 2 1) = Inr ((- 1, - 0.5), (1, 0.5))" by (simp add: Rectangle_def)
  have c: "com (Rectangle 2 1) = Inr (0, 0)" by (simp add: Rectangle_def)
  from weighted_laws [OF a m, of "- 1" "- 1"] a m b c show ?thesis by simp
qed

text \<open>
  C9. \<open>A * w\<close> with \<open>w\<close> a string, \<open>None\<close> or a tuple raises \<open>AssertionError\<close> from
  \<open>__mul__\<close> itself, so no Weighted node exists to be queried; with \<open>w\<close> a \<open>float\<close>, an
  \<open>int\<close> or a \<open>bool\<close> it returns the Weighted node.
\<close>

theorem mul_checks_weight:
  "mul A (PyStr s) = Inl AssertionError \<and>
   mul A PyNone = Inl AssertionError \<and>
   mul A (PyTuple vs) = Inl AssertionError \<and>
   mul A (PyFloat r) = Inr (Weighted A r) \<and>
   mul A (PyInt i) = Inr (Weighted A (real_of_int i)) \<and>
   mul A (PyBool b) = Inr (Weighted A (if b then 1 else 0))"
  by (simp add: mul_def)

text \<open>
  C10. \<open>w * A\<close> is answered by \<open>__rmul__\<close>. For a number \<open>w\<close> (a \<open>float\<close> or an
  \<open>int\<close>) it returns the Weighted node over \<open>A\<close> with weight \<open>w\<close>, the very node
  \<open>A * w\<close> returns; so both have the same area and moment (those of \<open>A\<close> times
  \<open>w\<close>) and the same bounding box and centre of mass (those of \<open>A\<close>). For every
  other object both sides give the same outcome as well.
\<close>

theorem rmul_same_as_mul:
  "rmul A (PyFloat w) = Inr (Weighted A w) \<and>
   mul A (PyFloat w) = Inr (Weighted A w) \<and>
   rmul A (PyInt i) = Inr (Weighted A (real_of_int i)) \<and>
   mul A (PyInt i) = Inr (Weighted A (real_of_int i)) \<and>
   area (Weighted A w) = (case area A of Inl e \<Rightarrow> Inl e | Inr a \<Rightarrow> Inr (a * w)) \<and>
   mom (Weighted A w) = (case mom A of Inl e \<Rightarrow> Inl e | Inr m \<Rightarrow> Inr (m * w)) \<and>
   bb (Weighted A w) = bb A \<and>
   com (Weighted A w) = com A \<and>
   rmul A v = mul A v"
  by (simp add: rmul_def mul_def)

subsection \<open>Sum\<close>

text \<open>
  C7. For shapes \<open>A\<close> and \<open>B\<close> whose areas and bounding boxes are returned, \<open>A + B\<close> has
  the sum of the two areas, and the box made of the smaller of the two lower corners
  and the larger of the two upper corners, coordinate by coordinate.
\<close>

theorem sum_area_bb:
  assumes "area A = Inr a" and "area B = Inr b"
    and "bb A = Inr ((xmin1, ymin1), (xmax1, ymax1))"
    and "bb B = Inr ((xmin2, ymin2), (xmax2, ymax2))"
  shows "area (add A B) = Inr (a + b) \<and>
         bb (add A B) =
           Inr ((min xmin1 xmin2, min ymin1 ymin2), (max xmax1 xmax2, max ymax1 ymax2))"
  using assms by (simp add: add_def)

theorem sum_area_bb_witness:
  "area (Rectangle 2 1) = Inr 2 \<and> area (shift UnitSquare (3, 1)) = Inr 1 \<and>
   bb (Rectangle 2 1) = Inr ((- 1, - 0.5), (1, 0.5)) \<and>
   bb (shift UnitSquare (3, 1)) = Inr ((2.5, 0.5), (3.5, 1.5)) \<and>
   area (add (Rectangle 2 1) (shift UnitSquare (3, 1))) = Inr 3 \<and>
   bb (add (Rectangle 2 1) (shift UnitSquare (3, 1))) = Inr ((- 1, - 0.5), (3.5, 1.5))"
proof -
  have a: "area (Rectangle 2 1) = Inr 2" by (simp add: Rectangle_def)
  have b: "area (shift UnitSquare (3, 1)) = Inr 1" by (simp add: shift_def)
  have ba: "bb (Rectangle 2 1) = Inr ((- 1, - 0.5), (1, 0.5))" by (simp add: Rectangle_def)
  have bs: "bb (shift UnitSquare (3, 1)) = Inr ((2.5, 0.5), (3.5, 1.5))"
    by (simp add: shift_def)
  from sum_area_bb [OF a b ba bs] a b ba bs show ?thesis by simp
qed

text \<open>
  C3. For shapes \<open>A\<close> and \<open>B\<close> whose areas \<open>a1\<close>, \<open>a2\<close> and centres of mass \<open>(x1, y1)\<close>,
  \<open>(x2, y2)\<close> are returned, the centre of mass of \<open>A + B\<close> is the average of the two
  centres weighted by the areas when \<open>a1 + a2 \<noteq> 0\<close>, and the query raises
  \<open>ZeroDivisionError\<close> when \<open>a1 + a2 = 0\<close>. The witness takes \<open>A - A\<close> for the second
  case.
\<close>

theorem sum_com_weighted_average:
  assumes "area A = Inr a1" and "area B = Inr a2"
    and "com A = Inr (x1, y1)" and "com B = Inr (x2, y2)"
  shows "com (add A B) =
    (if a1 + a2 = 0 then Inl ZeroDivisionError
     else Inr ((x1 * a1 + x2 * a2) / (a1 + a2), (y1 * a1 + y2 * a2) / (a1 + a2)))"
  using assms by (simp add: add_def)

theorem sum_com_weighted_average_witness:
  "area (shift UnitSquare (4, 2)) = Inr 1 \<and> com (shift UnitSquare (4, 2)) = Inr (4, 2) \<and>
   area (Rectangle 3 1) = Inr 3 \<and> com (Rectangle 3 1) = Inr (0, 0) \<and>
   com (add (shift UnitSquare (4, 2)) (Rectangle 3 1)) = Inr (1, 1 / 2) \<and>
   area (Weighted (Rectangle 3 1) (- 1)) = Inr (- 3) \<and>
   com (Weighted (Rectangle 3 1) (- 1)) = Inr (0, 0) \<and>
   sub (Rectangle 3 1) (Rectangle 3 1) =
     Inr (add (Rectangle 3 1) (Weighted (Rectangle 3 1) (- 1))) \<and>
   com (add (Rectangle 3 1) (Weighted (Rectangle 3 1) (- 1))) = Inl ZeroDivisionError"
proof -
  have a1: "area (shift UnitSquare (4, 2)) = Inr 1" by (simp add: shift_def)
  have c1: "com (shift UnitSquare (4, 2)) = Inr (4, 2)" by (simp add: shift_def)
  have a2: "area (Rectangle 3 1) = Inr 3" by (simp add: Rectangle_def)
  have c2: "com (Rectangle 3 1) = Inr (0, 0)" by (simp add: Rectangle_def)
  have a3: "area (Weighted (Rectangle 3 1) (- 1)) = Inr (- 3)" by (simp add: Rectangle_def)
  have c3: "com (Weighted (Rectangle 3 1) (- 1)) = Inr (0, 0)" by (simp add: Rectangle_def)
  have s: "sub (Rectangle 3 1) (Rectangle 3 1) =
      Inr (add (Rectangle 3 1) (Weighted (Rectangle 3 1) (- 1)))"
    by (simp add: sub_self add_def)
  from sum_com_weighted_average [OF a1 a2 c1 c2] sum_com_weighted_average [OF a2 a3 c2 c3]
    a1 c1 a2 c2 a3 c3 s
  show ?thesis by simp
qed

subsection \<open>Centering\<close>

text \<open>
  C4. For a shape \<open>A\<close> whose centre of mass \<open>(x, y)\<close> is returned, \<open>A.center()\<close> is \<open>A\<close>
  shifted by \<open>(-x, -y)\<close>, and its centre of mass is \<open>(0, 0)\<close>.
\<close>

theorem center_com_origin:
  assumes "com A = Inr (x, y)"
  shows "center A = Inr (shift A (- x, - y)) \<and> com (shift A (- x, - y)) = Inr (0, 0)"
  using assms by (simp add: center_def shift_def)

theorem center_com_origin_witness:
  "com (shift (Rectangle 2 1) (3, 4)) = Inr (3, 4) \<and>
   center (shift (Rectangle 2 1) (3, 4)) = Inr (shift (shift (Rectangle 2 1) (3, 4)) (- 3, - 4)) \<and>
   com (shift (shift (Rectangle 2 1) (3, 4)) (- 3, - 4)) = Inr (0, 0)"
proof -
  have c: "com (shift (Rectangle 2 1) (3, 4)) = Inr (3, 4)"
    by (simp add: shift_def Rectangle_def)
  from center_com_origin [OF c] c show ?thesis by simp
qed

text \<open>
  C4 as it is worded asks only for a nonzero area of \<open>A\<close>, and that is not enough:
  \<open>(U - U) + U\<close> over the unit square \<open>U\<close> has area
  1, yet its centre of mass raises \<open>ZeroDivisionError\<close> inside the first summand, and so
  does \<open>center()\<close>.
\<close>

theorem center_nonzero_area_fault:
  "sub UnitSquare UnitSquare = Inr (Sum UnitSquare (Weighted UnitSquare (- 1))) \<and>
   area (add (Sum UnitSquare (Weighted UnitSquare (- 1))) UnitSquare) = Inr 1 \<and>
   com (add (Sum UnitSquare (Weighted UnitSquare (- 1))) UnitSquare) = Inl ZeroDivisionError \<and>
   center (add (Sum UnitSquare (Weighted UnitSquare (- 1))) UnitSquare) = Inl ZeroDivisionError"
  by (simp add: sub_self add_def center_def)

subsection \<open>The leaf and Rectangle\<close>

text \<open>
  C8. \<open>Rectangle(width, height)\<close> is the unit square scaled by \<open>(width, height)\<close>. The
  unit square has area 1, moment \<open>1/12\<close>, box \<open>((-0.5, -0.5), (0.5, 0.5))\<close> and centre
  \<open>(0, 0)\<close>; \<open>Rectangle(2, 1)\<close> has area 2, box \<open>((-1, -0.5), (1, 0.5))\<close>, moment \<open>1/6\<close>
  and centre \<open>(0, 0)\<close>.
\<close>

theorem rectangle_is_scaled_unit_square:
  "Rectangle width height = Scaled UnitSquare (ScTuple width height) \<and>
   area UnitSquare = Inr 1 \<and>
   mom UnitSquare = Inr (1 / 12) \<and>
   bb UnitSquare = Inr ((- 0.5, - 0.5), (0.5, 0.5)) \<and>
   com UnitSquare = Inr (0, 0) \<and>
   area (Rectangle 2 1) = Inr 2 \<and>
   bb (Rectangle 2 1) = Inr ((- 1, - 0.5), (1, 0.5)) \<and>
   mom (Rectangle 2 1) = Inr (1 / 6) \<and>
   com (Rectangle 2 1) = Inr (0, 0)"
  by (simp add: Rectangle_def)

end
